theory Spec2Isabelle
  imports Main "HOL-Library.AList"
begin

section \<open>Errors, requests and responses\<close>

text \<open>
  The exceptions the client raises (module \<open>installer.exceptions\<close>) together with the
  Python built-in exceptions and the \<open>requests\<close> exceptions that can leave the modelled
  functions. An operation returns \<open>Inl e\<close> where the source raises \<open>e\<close>.
\<close>

datatype error =
    NoConnection string
  | ConnectionException string
  | NotEnoughSpace
  | RemoteResourceNotFound string
  | MethodNotSupported string string
  | ResponseErrorCode string int string
  | RemoteParentNotFound string
  | OptionNotValid string string
  | LocalResourceNotFound string
  | ResourceLocked string
  | RequestsConnectionError
  | RequestsRequestException string
  | KeyError string
  | ValueError string
  | TypeError string
  | AttributeError string
  | OSError string
  | RecursionError

text \<open>The body handed to \<open>session.request\<close> as \<open>data\<close>.\<close>

datatype payload =
    NoData
  | Bytes string
  | FileHandle string
  | Generator "(nat \<times> nat) list" "string list"

record request =
  http_method :: string
  url :: string
  auth :: "(string \<times> string) option"
  req_headers :: "(string \<times> string) list"
  req_timeout :: int
  cert :: "(string \<times> string) option"
  data :: payload
  stream :: bool
  req_verify :: bool

record response =
  status_code :: int
  headers :: "(string \<times> string) list"
  content :: string

text \<open>What \<open>session.request\<close> does: it answers, or raises one of the two exception
  classes that \<open>wrap_connection_error\<close> distinguishes.\<close>

datatype reply =
    Reply response
  | ConnectionFailed
  | RequestFailed string

section \<open>XML elements\<close>

text \<open>An \<open>lxml\<close> element: tag in Clark notation, text (\<open>None\<close> when the element is
  empty) and children.\<close>

datatype element = Element (tag: string) (el_text: "string option") (children: "element list")

fun descendants :: "element \<Rightarrow> element list" where
  "descendants (Element t x cs) = concat (map (\<lambda>c. c # descendants c) cs)"

text \<open>\<open>el.findall(".//tag")\<close>, \<open>el.find(".//tag")\<close>, \<open>el.findtext(".//tag")\<close> and their
  variants without \<open>.//\<close>, which look at the children only.\<close>

definition findall_desc :: "element \<Rightarrow> string \<Rightarrow> element list" where
  "findall_desc el t = filter (\<lambda>d. tag d = t) (descendants el)"

definition findall_child :: "element \<Rightarrow> string \<Rightarrow> element list" where
  "findall_child el t = filter (\<lambda>d. tag d = t) (children el)"

definition first_opt :: "'a list \<Rightarrow> 'a option" where
  "first_opt xs = (case xs of [] \<Rightarrow> None | x # _ \<Rightarrow> Some x)"

definition find_desc :: "element \<Rightarrow> string \<Rightarrow> element option" where
  "find_desc el t = first_opt (findall_desc el t)"

definition find_child :: "element \<Rightarrow> string \<Rightarrow> element option" where
  "find_child el t = first_opt (findall_child el t)"

definition text_or_empty :: "element \<Rightarrow> string" where
  "text_or_empty d = (case el_text d of None \<Rightarrow> [] | Some s \<Rightarrow> s)"

definition findtext_desc :: "element \<Rightarrow> string \<Rightarrow> string option" where
  "findtext_desc el t = map_option text_or_empty (find_desc el t)"

definition findtext_child :: "element \<Rightarrow> string \<Rightarrow> string option" where
  "findtext_child el t = map_option text_or_empty (find_child el t)"

section \<open>Python strings and integers\<close>

definition is_space :: "char \<Rightarrow> bool" where
  "is_space ch = (let n = (of_char ch :: nat) in (9 \<le> n \<and> n \<le> 13) \<or> (28 \<le> n \<and> n \<le> 32))"

definition lstrip :: "string \<Rightarrow> string" where
  "lstrip s = dropWhile is_space s"

definition rstrip :: "string \<Rightarrow> string" where
  "rstrip s = rev (dropWhile is_space (rev s))"

definition strip :: "string \<Rightarrow> string" where
  "strip s = rstrip (lstrip s)"

definition is_digit :: "char \<Rightarrow> bool" where
  "is_digit ch = (let n = (of_char ch :: nat) in 48 \<le> n \<and> n \<le> 57)"

definition digit_val :: "char \<Rightarrow> nat" where
  "digit_val ch = (of_char ch :: nat) - 48"

text \<open>The digits of a Python integer literal: at least one digit, single underscores
  allowed between digits. \<open>prev\<close> tells whether the previous character was a digit.\<close>

fun digits_from :: "bool \<Rightarrow> nat \<Rightarrow> string \<Rightarrow> nat option" where
  "digits_from prev acc [] = (if prev then Some acc else None)"
| "digits_from prev acc (ch # cs) =
     (if is_digit ch then digits_from True (10 * acc + digit_val ch) cs
      else if ch = CHR ''_'' \<and> prev then digits_from False acc cs
      else None)"

text \<open>\<open>int(s)\<close> for a string: \<open>None\<close> where Python raises \<open>ValueError\<close>.\<close>

definition py_int :: "string \<Rightarrow> int option" where
  "py_int s =
     (case strip s of
        [] \<Rightarrow> None
      | ch # cs \<Rightarrow>
          if ch = CHR ''-'' then map_option (\<lambda>n. - int n) (digits_from False 0 cs)
          else if ch = CHR ''+'' then map_option int (digits_from False 0 cs)
          else map_option int (digits_from False 0 (ch # cs)))"

text \<open>\<open>s.split(':', 1)\<close>: one element when there is no colon, two otherwise.\<close>

definition split_colon :: "string \<Rightarrow> string list" where
  "split_colon s =
     (if CHR '':'' \<in> set s
      then [takeWhile (\<lambda>ch. ch \<noteq> CHR '':'') s, tl (dropWhile (\<lambda>ch. ch \<noteq> CHR '':'') s)]
      else [s])"

text \<open>\<open>dict(pairs)\<close>: a later pair overwrites the value of an earlier one with the same
  key and keeps its place; an element that is not a pair raises \<open>ValueError\<close>.\<close>

fun dict_of :: "string list list \<Rightarrow> (string \<times> string) list \<Rightarrow> error + (string \<times> string) list" where
  "dict_of [] d = Inr d"
| "dict_of (p # ps) d =
     (case p of
        [k, v] \<Rightarrow> dict_of ps (AList.update k v d)
      | _ \<Rightarrow> Inl (ValueError ''dictionary update sequence element has wrong length''))"

section \<open>Path model\<close>

text \<open>
  Modelled from the spec: the class \<open>Urn\<close> of module \<open>installer.urn\<close> is not among the
  sources. Section 4.1 of the specification: a raw path and a directory hint give a
  normalized absolute path, with a single leading separator, duplicate separators
  collapsed, and a trailing separator when the hint is set; a path is a directory when
  it ends in a separator. \<open>parent\<close> is the normalized path one level up, \<open>filename\<close> the
  last path segment without separators. Percent-encoding is applied only by \<open>quote\<close>.
\<close>

fun collapse :: "string \<Rightarrow> string" where
  "collapse [] = []"
| "collapse [ch] = [ch]"
| "collapse (a # b # cs) =
     (if a = CHR ''/'' \<and> b = CHR ''/'' then collapse (b # cs) else a # collapse (b # cs))"

fun segments_from :: "string \<Rightarrow> string \<Rightarrow> string list" where
  "segments_from cur [] = (if cur = [] then [] else [cur])"
| "segments_from cur (ch # cs) =
     (if ch = CHR ''/'' then (if cur = [] then segments_from [] cs else cur # segments_from [] cs)
      else segments_from (cur @ [ch]) cs)"

definition segments :: "string \<Rightarrow> string list" where
  "segments p = segments_from [] p"

definition ends_with_sep :: "string \<Rightarrow> bool" where
  "ends_with_sep p = (p \<noteq> [] \<and> last p = CHR ''/'')"

record urn =
  upath :: string

definition Urn :: "string \<Rightarrow> bool \<Rightarrow> urn" where
  "Urn raw directory =
     (let p = collapse raw;
          p = (if p \<noteq> [] \<and> hd p = CHR ''/'' then p else CHR ''/'' # p);
          p = (if directory \<and> \<not> ends_with_sep p then p @ ''/'' else p)
      in \<lparr>upath = p\<rparr>)"

definition urn_path :: "urn \<Rightarrow> string" where
  "urn_path u = upath u"

definition urn_is_dir :: "urn \<Rightarrow> bool" where
  "urn_is_dir u = ends_with_sep (upath u)"

definition urn_filename :: "urn \<Rightarrow> string" where
  "urn_filename u = (case segments (upath u) of [] \<Rightarrow> [] | s # ss \<Rightarrow> last (s # ss))"

definition urn_parent :: "urn \<Rightarrow> string" where
  "urn_parent u = concat (map (\<lambda>s. CHR ''/'' # s) (butlast (segments (upath u)))) @ ''/''"

text \<open>
  Modelled from the spec: \<open>Urn.normalize_path\<close> and \<open>Urn.compare_path\<close> (module
  \<open>installer.urn\<close>, not among the sources). Sections 3 and 4.1: two paths compare equal
  iff they normalize to the same node, a trailing separator making no difference.
\<close>

definition normalize_path :: "string \<Rightarrow> string" where
  "normalize_path p =
     (let r = collapse p in if ends_with_sep r then butlast r else r)"

definition compare_path :: "string \<Rightarrow> string \<Rightarrow> bool" where
  "compare_path a b = (normalize_path a = normalize_path b)"

section \<open>Settings, client and environment\<close>

text \<open>
  Modelled from the spec: the class \<open>WebDAVSettings\<close> of module \<open>installer.connection\<close> is
  not among the sources; these are the attributes the client reads (section 3,
  ConnectionSettings). An unset string option is the empty string.
\<close>

record settings =
  hostname :: string
  root :: string
  login :: string
  password :: string
  token :: string
  cert_path :: string
  key_path :: string
  timeout :: int
  disable_check :: bool
  override_methods :: "(string \<times> string) list"

text \<open>The attributes of a \<open>ModuleInstaller\<close> object. \<open>lock_token\<close> is set for a
  \<open>LockClient\<close>, whose \<open>get_headers\<close> adds two headers, and \<open>None\<close> otherwise.\<close>

record client =
  session_auth :: "(string \<times> string) option"
  http_header :: "(string \<times> string list) list"
  requests :: "(string \<times> string) list"
  webdav :: settings
  client_timeout :: int
  chunk_size :: nat
  verify :: bool
  lock_token :: "string option"

definition default_http_header :: "(string \<times> string list) list" where
  "default_http_header =
    [(''list'', [''Accept: */*'', ''Depth: 1'']),
     (''free'', [''Accept: */*'', ''Depth: 0'', ''Content-Type: text/xml'']),
     (''copy'', [''Accept: */*'']),
     (''move'', [''Accept: */*'']),
     (''mkdir'', [''Accept: */*'', ''Connection: Keep-Alive'']),
     (''clean'', [''Accept: */*'', ''Connection: Keep-Alive'']),
     (''check'', [''Accept: */*'']),
     (''info'', [''Accept: */*'', ''Depth: 1'']),
     (''get_property'',
        [''Accept: */*'', ''Depth: 1'', ''Content-Type: application/x-www-form-urlencoded'']),
     (''set_property'',
        [''Accept: */*'', ''Depth: 1'', ''Content-Type: application/x-www-form-urlencoded''])]"

definition default_requests :: "(string \<times> string) list" where
  "default_requests =
    [(''options'', ''OPTIONS''), (''download'', ''GET''), (''upload'', ''PUT''),
     (''copy'', ''COPY''), (''move'', ''MOVE''), (''mkdir'', ''MKCOL''),
     (''clean'', ''DELETE''), (''check'', ''HEAD''), (''list'', ''PROPFIND''),
     (''free'', ''PROPFIND''), (''info'', ''PROPFIND''), (''publish'', ''PROPPATCH''),
     (''unpublish'', ''PROPPATCH''), (''published'', ''PROPPATCH''),
     (''get_property'', ''PROPFIND''), (''set_property'', ''PROPPATCH''),
     (''lock'', ''LOCK''), (''unlock'', ''UNLOCK'')]"

text \<open>\<open>d.update(other)\<close> on dictionaries.\<close>

definition dict_update :: "('k \<times> 'v) list \<Rightarrow> ('k \<times> 'v) list \<Rightarrow> ('k \<times> 'v) list" where
  "dict_update d other = foldl (\<lambda>acc (k, v). AList.update k v acc) d other"

text \<open>What \<open>__init__\<close> leaves in the object, given the settings object \<open>wd\<close> it builds.\<close>

definition ModuleInstaller_init :: "settings \<Rightarrow> client" where
  "ModuleInstaller_init wd =
     \<lparr>session_auth = None,
      http_header = default_http_header,
      requests = dict_update default_requests (override_methods wd),
      webdav = wd,
      client_timeout = timeout wd,
      chunk_size = 65536,
      verify = True,
      lock_token = None\<rparr>"

text \<open>
  The third-party code the client calls: the HTTP transport (\<open>session.request\<close>, acting
  on a server state of type \<open>'s\<close>, and \<open>response.iter_content\<close>), \<open>lxml\<close>
  (\<open>etree.fromstring\<close>, \<open>None\<close> for \<open>XMLSyntaxError\<close>), \<open>urllib.parse\<close> and \<open>dateutil\<close>
  (the parsed date as Unix seconds, \<open>None\<close> for a \<open>ValueError\<close>) and \<open>re.sub\<close>.
\<close>

record 's env =
  session_request :: "request \<Rightarrow> 's \<Rightarrow> reply \<times> 's"
  iter_content :: "response \<Rightarrow> nat \<Rightarrow> string list"
  etree_fromstring :: "string \<Rightarrow> element option"
  url_quote :: "string \<Rightarrow> string"
  url_unquote :: "string \<Rightarrow> string"
  urlsplit_path :: "string option \<Rightarrow> string"
  urlparse_path :: "string \<Rightarrow> string"
  dateutil_parse :: "string \<Rightarrow> int option"
  re_sub :: "string \<Rightarrow> string \<Rightarrow> string \<Rightarrow> string"

text \<open>A node of the local file system, with its modification time in Unix seconds: a
  file with its content, or a directory with the names \<open>os.listdir\<close> gives.\<close>

datatype lnode = LFile int string | LDir int "string list"

text \<open>What the client does that is visible outside it, in order.\<close>

datatype event =
    Sent request
  | ProgressCall nat "int option"
  | BuffWrite string
  | FileOpened string
  | FileWrite string string
  | Printed string
  | PipInstall

record 's world =
  server :: 's
  lfs :: "string \<Rightarrow> lnode option"
  trace :: "event list"

type_synonym ('a, 's) prog = "'s world \<Rightarrow> (error + 'a) \<times> 's world"

definition ret :: "'a \<Rightarrow> ('a, 's) prog" where
  "ret x = (\<lambda>w. (Inr x, w))"

definition raise :: "error \<Rightarrow> ('a, 's) prog" where
  "raise e = (\<lambda>w. (Inl e, w))"

definition bnd :: "('a, 's) prog \<Rightarrow> ('a \<Rightarrow> ('b, 's) prog) \<Rightarrow> ('b, 's) prog" where
  "bnd m f = (\<lambda>w. case m w of (Inl e, w') \<Rightarrow> (Inl e, w') | (Inr x, w') \<Rightarrow> f x w')"

definition emit :: "event \<Rightarrow> (unit, 's) prog" where
  "emit ev = (\<lambda>w. (Inr (), w\<lparr>trace := trace w @ [ev]\<rparr>))"

text \<open>The decorator \<open>wrap_connection_error\<close>.\<close>

definition wrap_connection_error :: "client \<Rightarrow> ('a, 's) prog \<Rightarrow> ('a, 's) prog" where
  "wrap_connection_error c m =
     (\<lambda>w. case m w of
        (Inl RequestsConnectionError, w') \<Rightarrow> (Inl (NoConnection (hostname (webdav c))), w')
      | (Inl (RequestsRequestException msg), w') \<Rightarrow> (Inl (ConnectionException msg), w')
      | r \<Rightarrow> r)"

section \<open>Request dispatcher\<close>

text \<open>The header line \<open>get_headers\<close> formats for a token.\<close>

definition webdav_token :: "string \<Rightarrow> string" where
  "webdav_token t = ''Authorization: Bearer '' @ t"

definition get_headers :: "client \<Rightarrow> string \<Rightarrow> string list \<Rightarrow> error + (string \<times> string) list" where
  "get_headers c action headers_ext =
     (let hs = (case map_of (http_header c) action of Some l \<Rightarrow> l | None \<Rightarrow> []);
          hs = (if headers_ext \<noteq> [] then hs @ headers_ext else hs);
          hs = (if token (webdav c) \<noteq> []
                then hs @ [webdav_token (token (webdav c))] else hs)
      in case dict_of (map (\<lambda>i. map strip (split_colon i)) hs) [] of
           Inl e \<Rightarrow> Inl e
         | Inr d \<Rightarrow>
             (case lock_token c of
                None \<Rightarrow> Inr d
              | Some t \<Rightarrow>
                  Inr (AList.update ''If'' (''('' @ t @ '')'') (AList.update ''Lock-Token'' t d))))"

definition get_url :: "client \<Rightarrow> string \<Rightarrow> string" where
  "get_url c path = hostname (webdav c) @ root (webdav c) @ path"

definition urn_quote :: "'s env \<Rightarrow> urn \<Rightarrow> string" where
  "urn_quote E u = url_quote E (upath u)"

definition get_full_path :: "'s env \<Rightarrow> client \<Rightarrow> urn \<Rightarrow> string" where
  "get_full_path E c u = url_unquote E (root (webdav c)) @ urn_path u"

definition request_auth :: "client \<Rightarrow> (string \<times> string) option" where
  "request_auth c =
     (if (token (webdav c) = [] \<and> session_auth c = None)
         \<and> (login (webdav c) \<noteq> [] \<and> password (webdav c) \<noteq> [])
      then Some (login (webdav c), password (webdav c)) else None)"

definition request_cert :: "client \<Rightarrow> (string \<times> string) option" where
  "request_cert c =
     (if cert_path (webdav c) \<noteq> [] \<and> key_path (webdav c) \<noteq> []
      then Some (cert_path (webdav c), key_path (webdav c)) else None)"

definition execute_request ::
  "'s env \<Rightarrow> client \<Rightarrow> string \<Rightarrow> string \<Rightarrow> payload \<Rightarrow> string list \<Rightarrow> (response, 's) prog" where
  "execute_request E c action path dat headers_ext =
     (\<lambda>w. case map_of (requests c) action of
        None \<Rightarrow> (Inl (KeyError action), w)
      | Some m \<Rightarrow>
         (case get_headers c action headers_ext of
            Inl e \<Rightarrow> (Inl e, w)
          | Inr hs \<Rightarrow>
             (let req = \<lparr>http_method = m, url = get_url c path, auth = request_auth c,
                         req_headers = hs, req_timeout = client_timeout c,
                         cert = request_cert c, data = dat, stream = True,
                         req_verify = verify c\<rparr>;
                  (rep, s') = session_request E req (server w);
                  w' = w\<lparr>server := s', trace := trace w @ [Sent req]\<rparr>
              in case rep of
                   ConnectionFailed \<Rightarrow> (Inl RequestsConnectionError, w')
                 | RequestFailed msg \<Rightarrow> (Inl (RequestsRequestException msg), w')
                 | Reply r \<Rightarrow>
                     if status_code r = 507 then (Inl NotEnoughSpace, w')
                     else if status_code r = 404 then (Inl (RemoteResourceNotFound path), w')
                     else if status_code r = 423 then (Inl (ResourceLocked path), w')
                     else if status_code r = 405
                       then (Inl (MethodNotSupported action (hostname (webdav c))), w')
                     else if status_code r \<ge> 400
                       then (Inl (ResponseErrorCode (get_url c path) (status_code r) (content r)), w')
                     else (Inr r, w'))))"

text \<open>\<open>check\<close>: the only handler is the one for \<open>RemoteResourceNotFound\<close>.\<close>

definition check :: "'s env \<Rightarrow> client \<Rightarrow> string \<Rightarrow> (bool, 's) prog" where
  "check E c remote_path =
     wrap_connection_error c
       (if disable_check (webdav c) then ret True
        else (\<lambda>w. case execute_request E c ''check'' (urn_quote E (Urn remote_path False)) NoData [] w of
                (Inl (RemoteResourceNotFound p), w') \<Rightarrow> (Inr False, w')
              | (Inl e, w') \<Rightarrow> (Inl e, w')
              | (Inr r, w') \<Rightarrow> (if status_code r = 200 then (Inr True, w') else (Inr False, w'))))"

text \<open>
  Python bounds the nesting of calls and raises \<open>RecursionError\<close> beyond it. The
  recursive operations take the number of nested recursive calls still allowed.
\<close>

text \<open>The \<open>try\<close> block of \<open>mkdir\<close>: the \<open>MKCOL\<close> request, with the handler for
  \<open>MethodNotSupported\<close>.\<close>

definition mkcol :: "'s env \<Rightarrow> client \<Rightarrow> string \<Rightarrow> (bool, 's) prog" where
  "mkcol E c remote_path =
     (\<lambda>w. case execute_request E c ''mkdir'' (urn_quote E (Urn remote_path True)) NoData [] w of
           (Inl (MethodNotSupported a srv), w') \<Rightarrow> (Inr True, w')
         | (Inl e, w') \<Rightarrow> (Inl e, w')
         | (Inr r, w') \<Rightarrow> (Inr (status_code r = 200 \<or> status_code r = 201), w'))"

fun mkdir :: "nat \<Rightarrow> 's env \<Rightarrow> client \<Rightarrow> string \<Rightarrow> bool \<Rightarrow> (bool, 's) prog" where
  "mkdir 0 E c remote_path recursive = raise RecursionError"
| "mkdir (Suc depth) E c remote_path recursive =
     wrap_connection_error c
       (bnd (check E c (urn_parent (Urn remote_path True))) (\<lambda>parent_exists.
        bnd (if \<not> parent_exists
             then (if recursive
                   then bnd (mkdir depth E c (urn_parent (Urn remote_path True)) True) (\<lambda>_. ret ())
                   else raise (RemoteParentNotFound (urn_path (Urn remote_path True))))
             else ret ()) (\<lambda>_. mkcol E c remote_path)))"

definition clean :: "'s env \<Rightarrow> client \<Rightarrow> string \<Rightarrow> (unit, 's) prog" where
  "clean E c remote_path =
     wrap_connection_error c
       (bnd (execute_request E c ''clean'' (urn_quote E (Urn remote_path False)) NoData [])
            (\<lambda>_. ret ()))"

section \<open>Multistatus codec\<close>

record resource_info =
  info_created :: "string option"
  info_name :: "string option"
  info_size :: "string option"
  info_modified :: "string option"
  info_etag :: "string option"
  info_content_type :: "string option"

record list_info = resource_info +
  info_isdir :: bool
  info_path :: string

definition get_info_from_response :: "element \<Rightarrow> resource_info" where
  "get_info_from_response resp =
     \<lparr>info_created = findtext_desc resp ''{DAV:}creationdate'',
      info_name = findtext_desc resp ''{DAV:}displayname'',
      info_size = findtext_desc resp ''{DAV:}getcontentlength'',
      info_modified = findtext_desc resp ''{DAV:}getlastmodified'',
      info_etag = findtext_desc resp ''{DAV:}getetag'',
      info_content_type = findtext_desc resp ''{DAV:}getcontenttype''\<rparr>"

definition parse_get_list_info_response :: "'s env \<Rightarrow> string \<Rightarrow> list_info list" where
  "parse_get_list_info_response E cont =
     (case etree_fromstring E cont of
        None \<Rightarrow> []
      | Some tree \<Rightarrow>
          concat (map (\<lambda>resp.
            case first_opt (findall_desc resp ''{DAV:}href'') of
              None \<Rightarrow> []
            | Some href_el \<Rightarrow>
                [resource_info.extend (get_info_from_response resp)
                   \<lparr>info_isdir = (length (findall_desc resp ''{DAV:}collection'') > 0),
                    info_path = url_unquote E (urlsplit_path E (el_text href_el))\<rparr>])
            (findall_desc tree ''{DAV:}response'')))"

definition parse_get_list_response :: "'s env \<Rightarrow> string \<Rightarrow> urn list" where
  "parse_get_list_response E cont =
     (case etree_fromstring E cont of
        None \<Rightarrow> []
      | Some tree \<Rightarrow>
          concat (map (\<lambda>resp.
            case first_opt (findall_desc resp ''{DAV:}href'') of
              None \<Rightarrow> []
            | Some href_el \<Rightarrow>
                [Urn (''/'' @ url_unquote E (urlsplit_path E (el_text href_el)))
                     (length (findall_desc resp ''{DAV:}collection'') > 0)])
            (findall_desc tree ''{DAV:}response'')))"

text \<open>The document \<open>create_free_space_request_content\<close> serializes.\<close>

definition create_free_space_request_content :: string where
  "create_free_space_request_content =
     ''<?xml version='' @ [CHR 0x27] @ ''1.0'' @ [CHR 0x27] @
     '' encoding='' @ [CHR 0x27] @ ''UTF-8'' @ [CHR 0x27] @ ''?>'' @ [CHR 0x0A] @
     ''<propfind xmlns='' @ [CHR 0x22] @ ''DAV:'' @ [CHR 0x22] @
     ''><prop><quota-available-bytes/><quota-used-bytes/></prop></propfind>''"

text \<open>\<open>parse_free_space_response\<close> returns an \<open>int\<close> or, in one branch, a \<open>str\<close>.\<close>

datatype free_space = FreeBytes int | FreeStr string

definition parse_free_space_response :: "'s env \<Rightarrow> string \<Rightarrow> string \<Rightarrow> error + free_space" where
  "parse_free_space_response E cont host =
     (case etree_fromstring E cont of
        None \<Rightarrow> Inr (FreeStr [])
      | Some tree \<Rightarrow>
          (case find_desc tree ''{DAV:}quota-available-bytes'' of
             None \<Rightarrow> Inl (MethodNotSupported ''free'' host)
           | Some node \<Rightarrow>
               (case el_text node of
                  None \<Rightarrow> Inl (MethodNotSupported ''free'' host)
                | Some s \<Rightarrow>
                    (case py_int s of
                       None \<Rightarrow> Inl (ValueError ''invalid literal for int()'')
                     | Some n \<Rightarrow> Inr (FreeBytes n)))))"

text \<open>The loop of \<open>extract_response_for_path\<close>. A response without \<open>href\<close> child gives
  \<open>href = None\<close>, on which \<open>href.startswith\<close> raises.\<close>

fun find_response :: "string \<Rightarrow> string \<Rightarrow> string \<Rightarrow> element list \<Rightarrow> error + element" where
  "find_response prefix path n_path [] = Inl (RemoteResourceNotFound path)"
| "find_response prefix path n_path (resp # rest) =
     (case findtext_child resp ''{DAV:}href'' of
        None \<Rightarrow> Inl (AttributeError ''startswith'')
      | Some href \<Rightarrow>
          if compare_path n_path href then Inr resp
          else if compare_path n_path
                    (if take (length prefix) href = prefix then drop (length prefix) href else href)
               then Inr resp
          else find_response prefix path n_path rest)"

definition extract_response_for_path :: "'s env \<Rightarrow> string \<Rightarrow> string \<Rightarrow> string \<Rightarrow> error + element" where
  "extract_response_for_path E cont path host =
     (case etree_fromstring E cont of
        None \<Rightarrow> Inl (MethodNotSupported ''is_dir'' host)
      | Some tree \<Rightarrow>
          find_response (urlparse_path E host) path (normalize_path path)
            (findall_child tree ''{DAV:}response''))"

definition parse_info_response :: "'s env \<Rightarrow> string \<Rightarrow> string \<Rightarrow> string \<Rightarrow> error + resource_info" where
  "parse_info_response E cont path host =
     (case extract_response_for_path E cont path host of
        Inl e \<Rightarrow> Inl e
      | Inr resp \<Rightarrow> Inr (get_info_from_response resp))"

definition parse_is_dir_response :: "'s env \<Rightarrow> string \<Rightarrow> string \<Rightarrow> string \<Rightarrow> error + bool" where
  "parse_is_dir_response E cont path host =
     (case extract_response_for_path E cont path host of
        Inl e \<Rightarrow> Inl e
      | Inr resp \<Rightarrow>
          (case find_desc resp ''{DAV:}resourcetype'' of
             None \<Rightarrow> Inl (MethodNotSupported ''is_dir'' host)
           | Some resource_type \<Rightarrow> Inr (find_child resource_type ''{DAV:}collection'' \<noteq> None)))"

section \<open>Listing, free space, metadata\<close>

datatype listing = Names "string list" | Infos "list_info list"

definition list_op :: "'s env \<Rightarrow> client \<Rightarrow> string \<Rightarrow> bool \<Rightarrow> bool \<Rightarrow> (listing, 's) prog" where
  "list_op E c remote_path get_info recursive =
     wrap_connection_error c
       (bnd (if urn_path (Urn remote_path True) \<noteq> ''/''
             then bnd (check E c (urn_path (Urn remote_path True))) (\<lambda>found.
                    if \<not> found then raise (RemoteResourceNotFound (urn_path (Urn remote_path True)))
                    else ret ())
             else ret ()) (\<lambda>_.
        bnd (execute_request E c ''list'' (urn_quote E (Urn remote_path True)) NoData
               (if recursive then [''Depth:infinity''] else [])) (\<lambda>resp.
        if get_info
        then ret (Infos (filter
               (\<lambda>subfile. \<not> compare_path
                   (normalize_path (get_full_path E c (Urn remote_path True))) (info_path subfile))
               (parse_get_list_info_response E (content resp))))
        else ret (Names (map urn_filename (filter
               (\<lambda>u. \<not> compare_path
                   (normalize_path (get_full_path E c (Urn remote_path True))) (urn_path u))
               (parse_get_list_response E (content resp))))))))"

definition free :: "'s env \<Rightarrow> client \<Rightarrow> (free_space, 's) prog" where
  "free E c =
     wrap_connection_error c
       (bnd (execute_request E c ''free'' [] (Bytes create_free_space_request_content) []) (\<lambda>resp.
        (\<lambda>w. (parse_free_space_response E (content resp) (hostname (webdav c)), w))))"

definition check_remote_resource :: "'s env \<Rightarrow> client \<Rightarrow> string \<Rightarrow> urn \<Rightarrow> (unit, 's) prog" where
  "check_remote_resource E c remote_path u =
     bnd (check E c (urn_path u)) (\<lambda>a.
       if a then ret ()
       else bnd (check E c (urn_path (Urn remote_path True))) (\<lambda>b.
         if b then ret () else raise (RemoteResourceNotFound remote_path)))"

definition info :: "'s env \<Rightarrow> client \<Rightarrow> string \<Rightarrow> (resource_info, 's) prog" where
  "info E c remote_path =
     wrap_connection_error c
       (bnd (check_remote_resource E c remote_path (Urn remote_path False)) (\<lambda>_.
        bnd (execute_request E c ''info'' (urn_quote E (Urn remote_path False)) NoData []) (\<lambda>resp.
        (\<lambda>w. (parse_info_response E (content resp)
                 (get_full_path E c (Urn remote_path False)) (hostname (webdav c)), w)))))"

definition is_dir :: "'s env \<Rightarrow> client \<Rightarrow> string \<Rightarrow> (bool, 's) prog" where
  "is_dir E c remote_path =
     wrap_connection_error c
       (bnd (check_remote_resource E c remote_path (Urn remote_path False)) (\<lambda>_.
        bnd (execute_request E c ''info'' (urn_quote E (Urn remote_path False)) NoData
               [''Depth: 0'']) (\<lambda>resp.
        (\<lambda>w. (parse_is_dir_response E (content resp)
                 (get_full_path E c (Urn remote_path False)) (hostname (webdav c)), w)))))"

section \<open>Local file system\<close>

definition os_exists :: "(string \<Rightarrow> lnode option) \<Rightarrow> string \<Rightarrow> bool" where
  "os_exists fs p = (fs p \<noteq> None)"

definition os_isdir :: "(string \<Rightarrow> lnode option) \<Rightarrow> string \<Rightarrow> bool" where
  "os_isdir fs p = (case fs p of Some (LDir t names) \<Rightarrow> True | _ \<Rightarrow> False)"

definition path_join :: "string \<Rightarrow> string \<Rightarrow> string" where
  "path_join a b =
     (if b \<noteq> [] \<and> hd b = CHR ''/'' then b
      else if a = [] \<or> last a = CHR ''/'' then a @ b
      else a @ ''/'' @ b)"

text \<open>The module-level function \<open>listdir\<close>.\<close>

definition listdir :: "(string \<Rightarrow> lnode option) \<Rightarrow> string \<Rightarrow> error + string list" where
  "listdir fs directory =
     (case fs directory of
        Some (LDir t names) \<Rightarrow>
          Inr (map (\<lambda>filename. if os_isdir fs (path_join directory filename)
                                then filename @ ''/'' else filename) names)
      | _ \<Rightarrow> Inl (OSError directory))"

text \<open>\<open>i in resource_name\<close> for strings.\<close>

fun contains :: "string \<Rightarrow> string \<Rightarrow> bool" where
  "contains i [] = (i = [])"
| "contains i (ch # cs) = (take (length i) (ch # cs) = i \<or> contains i cs)"

section \<open>Transfer engine\<close>







text \<open>The generator \<open>read_in_chunks\<close> of \<open>upload_file\<close>: the progress calls it makes and
  the chunks it yields when it is consumed to its end.\<close>

function read_loop :: "nat \<Rightarrow> nat \<Rightarrow> nat \<Rightarrow> string \<Rightarrow> (nat \<times> nat) list \<times> string list" where
  "read_loop cs tot current rest =
     (if current < tot
      then (if take cs rest = [] then ([(current, tot)], [])
            else (case read_loop cs tot (current + length (take cs rest)) (drop cs rest) of
                    (calls, chunks) \<Rightarrow> ((current, tot) # calls, take cs rest # chunks)))
      else ([], []))"
  by pat_completeness auto
termination
  by (relation "measure (\<lambda>(cs, tot, current, rest). length rest)") auto

definition read_in_chunks :: "nat \<Rightarrow> nat \<Rightarrow> string \<Rightarrow> (nat \<times> nat) list \<times> string list" where
  "read_in_chunks cs tot file_content =
     (case read_loop cs tot 0 file_content of
        (calls, chunks) \<Rightarrow> ((0, tot) # calls, chunks))"

definition upload_file ::
  "nat \<Rightarrow> 's env \<Rightarrow> client \<Rightarrow> string \<Rightarrow> string \<Rightarrow> bool \<Rightarrow> bool \<Rightarrow> bool \<Rightarrow> (unit, 's) prog" where
  "upload_file depth E c remote_path local_path progress force isprint =
     wrap_connection_error c
       (\<lambda>w. if \<not> os_exists (lfs w) local_path then (Inl (LocalResourceNotFound local_path), w)
             else if urn_is_dir (Urn remote_path False)
               then (Inl (OptionNotValid ''remote_path'' remote_path), w)
             else if os_isdir (lfs w) local_path
               then (Inl (OptionNotValid ''local_path'' local_path), w)
             else
              (bnd (check E c (urn_parent (Urn remote_path False))) (\<lambda>parent_exists.
               bnd (if \<not> parent_exists
                    then (if force
                          then bnd (mkdir depth E c (urn_parent (Urn remote_path False)) True)
                                 (\<lambda>_. ret ())
                          else raise (RemoteParentNotFound (urn_path (Urn remote_path False))))
                    else ret ()) (\<lambda>_.
               bnd (if isprint then emit (Printed ''Installing packages'') else ret ()) (\<lambda>_.
               (\<lambda>w1. case lfs w1 local_path of
                  Some (LFile mtime file_content) \<Rightarrow>
                    bnd (if isprint then emit (Printed ''Installed packages'') else ret ()) (\<lambda>_.
                    bnd (execute_request E c ''upload'' (urn_quote E (Urn remote_path False))
                           (if progress
                            then (case read_in_chunks (chunk_size c) (length file_content) file_content of
                                    (calls, chunks) \<Rightarrow> Generator calls chunks)
                            else FileHandle file_content) [])
                        (\<lambda>_. ret ())) w1
                | _ \<Rightarrow> (Inl (OSError local_path), w1)))))) w)"

text \<open>The names \<open>upload_directory\<close> passes over: an entry is skipped when its name
  contains one of them.\<close>

definition lista :: "string list" where
  "lista = [''abi'', ''utils'', ''venv'', ''Constants.py'', ''self_mixer.py'', ''idea'',
            ''__pycache__'', ''git'', ''nft.py'', ''holograph_nft.py'', ''eth_bridge.py'',
            ''.DS_Store'', ''self_mixer.py'', ''orbiter.py'']"

definition aboba :: "string \<Rightarrow> bool" where
  "aboba resource_name = (\<exists>i \<in> set lista. contains i resource_name)"

definition remove_backslashes :: "string \<Rightarrow> string" where
  "remove_backslashes p = filter (\<lambda>ch. ch \<noteq> CHR 0x5C) p"

text \<open>\<open>upload\<close>, \<open>upload_directory\<close> and the loop of the latter over the local entries.
  \<open>pip_install\<close> acts on the local Python installation only and handles every
  exception itself; it appears in the trace as \<open>PipInstall\<close>.\<close>

function (sequential) upload :: "nat \<Rightarrow> 's env \<Rightarrow> client \<Rightarrow> string \<Rightarrow> string \<Rightarrow> bool \<Rightarrow> bool \<Rightarrow> (unit, 's) prog"
  and upload_directory ::
    "nat \<Rightarrow> 's env \<Rightarrow> client \<Rightarrow> string \<Rightarrow> string \<Rightarrow> bool \<Rightarrow> bool \<Rightarrow> (unit, 's) prog"
  and upload_entries ::
    "nat \<Rightarrow> 's env \<Rightarrow> client \<Rightarrow> string \<Rightarrow> string \<Rightarrow> bool \<Rightarrow> bool \<Rightarrow> string list \<Rightarrow> (unit, 's) prog"
where
  "upload 0 E c remote_path local_path progress isprint = raise RecursionError"
| "upload (Suc depth) E c remote_path local_path progress isprint =
     (\<lambda>w. if os_isdir (lfs w) local_path
           then upload_directory depth E c remote_path local_path progress isprint w
           else upload_file depth E c remote_path local_path progress False isprint w)"
| "upload_directory depth E c remote_path local_path progress isprint =
     (\<lambda>w. if \<not> urn_is_dir (Urn remote_path True)
             then (Inl (OptionNotValid ''remote_path'' remote_path), w)
           else if \<not> os_isdir (lfs w) local_path
             then (Inl (OptionNotValid ''local_path'' local_path), w)
           else if \<not> os_exists (lfs w) local_path
             then (Inl (LocalResourceNotFound local_path), w)
           else
             (bnd (check E c (urn_path (Urn remote_path True))) (\<lambda>found.
              bnd (if found then clean E c (urn_path (Urn remote_path True)) else ret ()) (\<lambda>_.
              bnd (mkdir depth E c remote_path False) (\<lambda>_.
              bnd (\<lambda>w1. (listdir (lfs w1) local_path, w1)) (\<lambda>names.
              bnd (upload_entries depth E c (urn_path (Urn remote_path True)) local_path
                     progress isprint names) (\<lambda>_.
              if isprint then emit PipInstall else ret ()))))) w))"
| "upload_entries depth E c parent local_path progress isprint [] = ret ()"
| "upload_entries depth E c parent local_path progress isprint (resource_name # rest) =
     (if aboba resource_name
      then upload_entries depth E c parent local_path progress isprint rest
      else bnd (upload depth E c (remove_backslashes (parent @ resource_name))
                  (path_join local_path resource_name) progress isprint) (\<lambda>_.
           upload_entries depth E c parent local_path progress isprint rest))"
  by pat_completeness auto
termination
  by (relation "measures [\<lambda>x. case x of Inl (d, r) \<Rightarrow> 3 * d
                                | Inr (Inl (d, r)) \<Rightarrow> 3 * d + 2
                                | Inr (Inr (d, r)) \<Rightarrow> 3 * d + 1,
                         \<lambda>x. case x of Inr (Inr (d, E, c, p, l, pr, ip, names)) \<Rightarrow> length names
                                | _ \<Rightarrow> 0]") auto

section \<open>Directory synchronizer\<close>

text \<open>\<open>is_local_more_recent\<close>: the handler catches \<open>ValueError\<close>, \<open>RuntimeWarning\<close> and
  \<open>KeyError\<close>, wherever in the block they are raised. \<open>dateutil\<close> rejects \<open>None\<close>, the
  value of \<open>modified\<close> when the response has no such element, with a \<open>TypeError\<close>.\<close>

definition is_local_more_recent ::
  "'s env \<Rightarrow> client \<Rightarrow> string \<Rightarrow> string \<Rightarrow> (bool option, 's) prog" where
  "is_local_more_recent E c local_path remote_path =
     (\<lambda>w. case
        bnd (info E c remote_path) (\<lambda>remote_info.
          case info_modified remote_info of
            None \<Rightarrow> raise (TypeError ''Parser must be a string or character stream, not NoneType'')
          | Some s \<Rightarrow>
              (case dateutil_parse E s of
                 None \<Rightarrow> raise (ValueError ''Unknown string format'')
               | Some remote_ts \<Rightarrow>
                   (\<lambda>w1. case lfs w1 local_path of
                      None \<Rightarrow> (Inl (OSError local_path), w1)
                    | Some (LFile local_ts file_content) \<Rightarrow> (Inr (remote_ts < local_ts), w1)
                    | Some (LDir local_ts names) \<Rightarrow> (Inr (remote_ts < local_ts), w1)))) w
      of
        (Inl (ValueError msg), w') \<Rightarrow> (Inr None, w')
      | (Inl (KeyError k), w') \<Rightarrow> (Inr None, w')
      | (Inl e, w') \<Rightarrow> (Inl e, w')
      | (Inr b, w') \<Rightarrow> (Inr (Some b), w'))"

definition validate_remote_directory :: "'s env \<Rightarrow> client \<Rightarrow> urn \<Rightarrow> (unit, 's) prog" where
  "validate_remote_directory E c u =
     bnd (is_dir E c (urn_path u)) (\<lambda>d.
       if \<not> d then raise (OptionNotValid ''remote_path'' (urn_path u)) else ret ())"

definition validate_local_directory :: "string \<Rightarrow> (unit, 's) prog" where
  "validate_local_directory local_directory =
     (\<lambda>w. if \<not> os_isdir (lfs w) local_directory
             then (Inl (OptionNotValid ''local_path'' local_directory), w)
           else if \<not> os_exists (lfs w) local_directory
             then (Inl (LocalResourceNotFound local_directory), w)
           else (Inr (), w))"

definition names_of :: "listing \<Rightarrow> string list" where
  "names_of l = (case l of Names ns \<Rightarrow> ns | Infos is \<Rightarrow> [])"

text \<open>\<open>push\<close> and its loop over the local entries; \<open>updated\<close> is the loop's variable.\<close>

fun push :: "nat \<Rightarrow> 's env \<Rightarrow> client \<Rightarrow> string \<Rightarrow> string \<Rightarrow> (bool, 's) prog"
  and push_entries ::
    "nat \<Rightarrow> 's env \<Rightarrow> client \<Rightarrow> string \<Rightarrow> string \<Rightarrow> string list \<Rightarrow> string list \<Rightarrow> bool \<Rightarrow> (bool, 's) prog"
where
  "push 0 E c remote_directory local_directory = raise RecursionError"
| "push (Suc depth) E c remote_directory local_directory =
     bnd (validate_remote_directory E c (Urn remote_directory True)) (\<lambda>_.
     bnd (validate_local_directory local_directory) (\<lambda>_.
     bnd (list_op E c (urn_path (Urn remote_directory True)) False False) (\<lambda>paths.
     bnd (\<lambda>w. (listdir (lfs w) local_directory, w)) (\<lambda>names.
     push_entries depth E c (urn_path (Urn remote_directory True)) local_directory
       (map (re_sub E (''^'' @ urn_path (Urn remote_directory True)) []) (names_of paths))
       names False))))"
| "push_entries depth E c parent local_directory remote_resource_names [] updated = ret updated"
| "push_entries depth E c parent local_directory remote_resource_names
       (local_resource_name # rest) updated =
     (\<lambda>w. if os_isdir (lfs w) (path_join local_directory local_resource_name)
           then
             bnd (check E c (parent @ local_resource_name)) (\<lambda>found.
             bnd (if \<not> found
                  then bnd (mkdir depth E c (parent @ local_resource_name) False) (\<lambda>_. ret ())
                  else ret ()) (\<lambda>_.
             bnd (push depth E c (parent @ local_resource_name)
                    (path_join local_directory local_resource_name)) (\<lambda>result.
             push_entries depth E c parent local_directory remote_resource_names rest
               (updated \<or> result)))) w
           else
             bnd (if local_resource_name \<in> set remote_resource_names
                  then is_local_more_recent E c
                         (path_join local_directory local_resource_name)
                         (parent @ local_resource_name)
                  else ret (Some True)) (\<lambda>recent.
             if local_resource_name \<in> set remote_resource_names \<and> recent \<noteq> Some True
             then push_entries depth E c parent local_directory remote_resource_names rest updated
             else bnd (upload_file depth E c (parent @ local_resource_name)
                         (path_join local_directory local_resource_name) False False True) (\<lambda>_.
                  push_entries depth E c parent local_directory remote_resource_names rest True)) w)"

section \<open>An example server\<close>

text \<open>
  A small WebDAV server and library environment on which the theorems below are
  instantiated. The server's state is the list of the paths that exist. A method
  listed in \<open>forced\<close> is answered with the status given there; otherwise \<open>HEAD\<close> tells
  whether the path exists, \<open>MKCOL\<close> and \<open>PUT\<close> create it, \<open>DELETE\<close> removes it, and
  every other method is answered with the response stored for the method and the path. The paths of the
  examples hold no reserved characters, so that quoting leaves them unchanged; the
  transport delivers a body in chunks of at most four bytes.
\<close>

definition demo_host :: string where
  "demo_host = ''https://dav.example.org''"

definition demo_settings :: settings where
  "demo_settings =
     \<lparr>hostname = demo_host, root = [], login = ''user'', password = ''secret'', token = [],
      cert_path = [], key_path = [], timeout = 30, disable_check = False,
      override_methods = []\<rparr>"

definition demo_client :: client where
  "demo_client = ModuleInstaller_init demo_settings"

definition status_only :: "int \<Rightarrow> response" where
  "status_only code = \<lparr>status_code = code, headers = [], content = []\<rparr>"

definition demo_server ::
  "(string \<times> int) list \<Rightarrow> ((string \<times> string) \<times> response) list \<Rightarrow> request \<Rightarrow> string list
     \<Rightarrow> reply \<times> string list" where
  "demo_server forced answers req st =
     (let p = drop (length demo_host) (url req) in
      case map_of forced (http_method req) of
        Some code \<Rightarrow> (Reply (status_only code), st)
      | None \<Rightarrow>
          if http_method req = ''HEAD''
            then (Reply (status_only (if p \<in> set st then 200 else 404)), st)
          else if http_method req = ''MKCOL'' \<or> http_method req = ''PUT''
            then (Reply (status_only 201), st @ [p])
          else if http_method req = ''DELETE''
            then (Reply (status_only 204), filter (\<lambda>q. q \<noteq> p) st)
          else (case map_of answers (http_method req, p) of
                  Some r \<Rightarrow> (Reply r, st)
                | None \<Rightarrow> (Reply (status_only 404), st)))"

fun chop :: "nat \<Rightarrow> nat \<Rightarrow> string \<Rightarrow> string list" where
  "chop 0 n s = []"
| "chop (Suc k) n s = (if s = [] then [] else take n s # chop k n (drop n s))"

definition demo_env ::
  "(string \<times> int) list \<Rightarrow> ((string \<times> string) \<times> response) list \<Rightarrow> (string \<times> element) list
     \<Rightarrow> (string \<times> int) list \<Rightarrow> string list env" where
  "demo_env forced answers docs dates =
     \<lparr>session_request = demo_server forced answers,
      iter_content = (\<lambda>r n. chop (length (content r)) (min n 4) (content r)),
      etree_fromstring = map_of docs,
      url_quote = (\<lambda>p. p),
      url_unquote = (\<lambda>p. p),
      urlsplit_path = (\<lambda>h. case h of None \<Rightarrow> [] | Some p \<Rightarrow> p),
      urlparse_path = (\<lambda>h. []),
      dateutil_parse = map_of dates,
      re_sub = (\<lambda>pattern repl s. s)\<rparr>"

definition demo_world :: "string list \<Rightarrow> (string \<times> lnode) list \<Rightarrow> string list world" where
  "demo_world st files = \<lparr>server = st, lfs = map_of files, trace = []\<rparr>"





section \<open>Notions used in the statements\<close>



text \<open>The method and URL of the requests of a trace, in order.\<close>

fun sent_requests :: "event list \<Rightarrow> (string \<times> string) list" where
  "sent_requests [] = []"
| "sent_requests (Sent r # es) = (http_method r, url r) # sent_requests es"
| "sent_requests (e # es) = sent_requests es"

section \<open>Evaluation on the example server\<close>

lemmas demo_simps = demo_env_def demo_server_def demo_client_def demo_settings_def demo_world_def
  demo_host_def status_only_def ModuleInstaller_init_def default_requests_def
  default_http_header_def dict_update_def

lemmas req_simps = execute_request_def get_headers_def webdav_token_def get_url_def
  request_auth_def request_cert_def split_colon_def strip_def lstrip_def rstrip_def
  is_space_def Let_def

lemmas prog_simps = ret_def raise_def bnd_def emit_def wrap_connection_error_def






section \<open>The dispatcher\<close>


text \<open>
  Claim C1. Whenever \<open>execute_request\<close> sends a request and the transport answers it
  with a response \<open>r\<close>, the result is decided by the status in this order: 507 raises
  \<open>NotEnoughSpace\<close>, 404 raises \<open>RemoteResourceNotFound\<close> with the requested path, 423
  raises \<open>ResourceLocked\<close>, 405 raises \<open>MethodNotSupported\<close> with the action and the
  hostname, any other status from 400 on raises \<open>ResponseErrorCode\<close> with URL, status
  and body, and a response with a status below 400 is returned unchanged.
\<close>

theorem execute_request_classification:
  assumes "trace (snd (execute_request E c action path dat headers_ext w)) = trace w @ [Sent req]"
      and "fst (session_request E req (server w)) = Reply r"
  shows "fst (execute_request E c action path dat headers_ext w) =
     (if status_code r = 507 then Inl NotEnoughSpace
      else if status_code r = 404 then Inl (RemoteResourceNotFound path)
      else if status_code r = 423 then Inl (ResourceLocked path)
      else if status_code r = 405 then Inl (MethodNotSupported action (hostname (webdav c)))
      else if status_code r \<ge> 400
        then Inl (ResponseErrorCode (get_url c path) (status_code r) (content r))
      else Inr r)"
  using assms
  by (auto simp: execute_request_def Let_def
      split: option.splits sum.splits reply.splits prod.splits)

theorem execute_request_classification_witness:
  "fst (execute_request (demo_env [(''PUT'', 405)] [] [] []) demo_client
          ''upload'' ''/a.txt'' NoData [] (demo_world [] []))
     = Inl (MethodNotSupported ''upload'' ''https://dav.example.org'')"
proof -
  let ?req = "\<lparr>http_method = ''PUT'', url = ''https://dav.example.org/a.txt'',
                auth = Some (''user'', ''secret''), req_headers = [], req_timeout = 30,
                cert = None, data = NoData, stream = True, req_verify = True\<rparr>"
  have sent: "trace (snd (execute_request (demo_env [(''PUT'', 405)] [] [] []) demo_client
                 ''upload'' ''/a.txt'' NoData [] (demo_world [] [])))
               = trace (demo_world [] []) @ [Sent ?req]"
    by (simp add: demo_simps req_simps)
  have answered: "fst (session_request (demo_env [(''PUT'', 405)] [] [] []) ?req
                    (server (demo_world [] []))) = Reply (status_only 405)"
    by (simp add: demo_simps)
  show ?thesis
    using execute_request_classification [OF sent answered]
    by (simp add: demo_simps)
qed








section \<open>Existence check and directory creation\<close>














section \<open>Listing\<close>









section \<open>Free space\<close>

text \<open>
  Claim C10, as the code has it. A body that is not well-formed XML makes
  \<open>parse_free_space_response\<close> return the empty string, and so does \<open>free\<close> for a response
  with such a body. For a well-formed body \<open>MethodNotSupported\<close> is raised exactly when
  there is no \<open>quota-available-bytes\<close> node or the first such node has no text.
\<close>

theorem parse_free_space_response_result:
  "(etree_fromstring E cont = None \<longrightarrow>
      parse_free_space_response E cont host = Inr (FreeStr []))
   \<and> (etree_fromstring E cont = Some tree \<longrightarrow>
        (parse_free_space_response E cont host = Inl (MethodNotSupported ''free'' host))
          = (case find_desc tree ''{DAV:}quota-available-bytes'' of
               None \<Rightarrow> True
             | Some node \<Rightarrow> el_text node = None))
   \<and> (execute_request E c ''free'' [] (Bytes create_free_space_request_content) [] w
          = (Inr resp, w')
        \<and> etree_fromstring E (content resp) = None \<longrightarrow>
      free E c w = (Inr (FreeStr []), w'))"
  by (auto simp: parse_free_space_response_def free_def prog_simps split: option.splits)

theorem parse_free_space_response_result_witness:
  "parse_free_space_response (demo_env [] [] [] []) ''<<'' demo_host = Inr (FreeStr [])
   \<and> parse_free_space_response
         (demo_env [] [] [(''<m/>'', Element ''{DAV:}multistatus'' None [])] [])
         ''<m/>'' demo_host = Inl (MethodNotSupported ''free'' demo_host)
   \<and> fst (free (demo_env [] [((''PROPFIND'', []), \<lparr>status_code = 207, headers = [], content = ''<<''\<rparr>)] [] [])
             demo_client (demo_world [] [])) = Inr (FreeStr [])"
proof -
  let ?E = "demo_env [] [] [] [] :: string list env"
  let ?M = "demo_env [] [] [(''<m/>'', Element ''{DAV:}multistatus'' None [])] [] :: string list env"
  let ?F = "demo_env [] [((''PROPFIND'', []), \<lparr>status_code = 207, headers = [], content = ''<<''\<rparr>)] [] []
              :: string list env"
  let ?w = "demo_world [] [] :: string list world"
  let ?resp = "\<lparr>status_code = 207, headers = [], content = ''<<''\<rparr>"
  have malformed: "etree_fromstring ?E ''<<'' = None"
    by (simp add: demo_env_def)
  have wellformed: "etree_fromstring ?M ''<m/>'' = Some (Element ''{DAV:}multistatus'' None [])"
    by (simp add: demo_env_def)
  have nonode: "find_desc (Element ''{DAV:}multistatus'' None []) ''{DAV:}quota-available-bytes''
                  = None"
    by (simp add: find_desc_def findall_desc_def first_opt_def)
  have answered: "execute_request ?F demo_client ''free'' []
                    (Bytes create_free_space_request_content) [] ?w
                  = (Inr ?resp, snd (execute_request ?F demo_client ''free'' []
                                       (Bytes create_free_space_request_content) [] ?w))"
    by (simp add: prod_eq_iff demo_simps req_simps)
  have body: "etree_fromstring ?F (content ?resp) = None"
    by (simp add: demo_env_def)
  have "parse_free_space_response ?E ''<<'' demo_host = Inr (FreeStr [])"
    using parse_free_space_response_result [of ?E "''<<''" demo_host] malformed by simp
  moreover have "parse_free_space_response ?M ''<m/>'' demo_host
                   = Inl (MethodNotSupported ''free'' demo_host)"
    using parse_free_space_response_result
            [of ?M "''<m/>''" demo_host "Element ''{DAV:}multistatus'' None []"]
      wellformed nonode by simp
  moreover have "fst (free ?F demo_client ?w) = Inr (FreeStr [])"
    using parse_free_space_response_result [where E = ?F and c = demo_client and w = ?w
            and resp = ?resp] answered body
    by simp
  ultimately show ?thesis
    by simp
qed

text \<open>
  Against claim C10 as stated: a well-formed body that has the
  \<open>quota-available-bytes\<close> node, left empty, raises \<open>MethodNotSupported\<close> too.
\<close>

theorem empty_quota_node_not_supported:
  "find_desc (Element ''{DAV:}multistatus'' None [Element ''{DAV:}quota-available-bytes'' None []])
      ''{DAV:}quota-available-bytes'' \<noteq> None
   \<and> parse_free_space_response
       (demo_env [] [] [(''<m/>'', Element ''{DAV:}multistatus'' None
                                     [Element ''{DAV:}quota-available-bytes'' None []])] [])
       ''<m/>'' demo_host = Inl (MethodNotSupported ''free'' demo_host)"
  by (simp add: parse_free_space_response_def demo_env_def find_desc_def findall_desc_def
      first_opt_def)

section \<open>Downloads\<close>














end
